theory Spec2Isabelle
  imports Complex_Main
begin

section \<open>Data model\<close>

text \<open>
  The enums of the types module, the rows of the relational schema
  (\<^verbatim>\<open>001_initial_schema.sql\<close>) and the objects of \<^verbatim>\<open>MonitoringService.ts\<close>.
  Timestamps are seconds on an integer time line; \<^verbatim>\<open>NOW()\<close>, \<^verbatim>\<open>CURRENT_TIMESTAMP\<close> and
  \<^verbatim>\<open>new Date()\<close> read the clock of the environment. A nullable column is an option.
\<close>

datatype AgentStatus = ACTIVE | INACTIVE | ERROR | MAINTENANCE

datatype AlertSeverity = LOW | MEDIUM | HIGH | CRITICAL

datatype systemStatus = healthy | warning | critical

text \<open>
  What a \<^verbatim>\<open>throw\<close> carries: \<^verbatim>\<open>new Error(message)\<close> raised by the services themselves, or
  the failure of an external collaborator (the database driver, the cache, the agent
  runtime, a channel transport), named by the collaborator.
\<close>

datatype error = Error string | ExternalFailure string

record agent_row =
  agent_id :: string
  agent_user_id :: string
  agent_status :: AgentStatus
  last_health_check :: "int option"

record metric_row =
  metric_agent_id :: string
  uptime :: "real option"
  recorded_at :: int

record alert_row =
  alert_id :: string
  alert_agent_id :: string
  alert_user_id :: string
  alert_type :: string
  alert_severity :: AlertSeverity
  alert_message :: string
  resolved :: bool
  resolved_at :: "int option"
  resolved_by :: "string option"
  created_at :: int

record user_row =
  user_id :: string
  email :: string

text \<open>
  A row of \<^verbatim>\<open>notification_settings\<close>, and the \<^verbatim>\<open>NotificationSettings\<close> object that
  \<^verbatim>\<open>getUserNotificationSettings\<close> builds from it. The three endpoint fields are optional
  strings; JavaScript's truthiness test on them is \<open>truthy\<close> below.
\<close>

record NotificationSettings =
  settings_user_id :: string
  email_enabled :: bool
  slack_webhook_url :: "string option"
  telegram_chat_id :: "string option"
  webhook_url :: "string option"

record MonitoringAlert =
  ma_id :: string
  ma_agentId :: string
  ma_type :: string
  ma_severity :: AlertSeverity
  ma_message :: string
  ma_timestamp :: int
  ma_resolved :: bool

record SystemHealth =
  totalAgents :: nat
  activeAgents :: nat
  errorAgents :: nat
  avgUptime :: real
  unresolvedAlerts :: nat
  systemStatus :: systemStatus

text \<open>The row returned by the statistics query of \<^verbatim>\<open>getSystemHealth\<close>.\<close>

record stats_row =
  total_agents :: nat
  active_agents :: nat
  error_agents :: nat
  avg_uptime :: "real option"

text \<open>The task object returned by the agent runtime: the core only forwards it.\<close>

record agent_task =
  task_status :: string
  task_result :: string

datatype channel = Email | Slack | Telegram | Webhook

datatype payload =
    AlertPayload MonitoringAlert
  | HealthCheckPayload string agent_task int
  | SystemHealthPayload SystemHealth

datatype log_level = Info | Warn | LogError

text \<open>The SQL statements and cache writes that the modelled operations issue.\<close>

datatype query =
    Q_getAgentById
  | Q_insertAlert
  | Q_updateAgent
  | Q_resolveAlert
  | Q_systemStats
  | Q_unresolvedAlerts
  | Q_deleteOldMetrics
  | Q_deleteResolvedAlerts
  | Q_notificationSettings
  | Q_userById

text \<open>
  The environment of one operation: which external calls fail, what the agent runtime
  answers, the configured bot token (\<^verbatim>\<open>process.env.TELEGRAM_BOT_TOKEN\<close>), the clock, and
  the identifier the store assigns to the next inserted alert (\<^verbatim>\<open>uuid_generate_v4()\<close>).
\<close>

record env =
  query_fails :: "query \<Rightarrow> bool"
  redis_fails :: bool
  task_outcome :: "string \<Rightarrow> error + agent_task"
  channel_fails :: "channel \<Rightarrow> bool"
  telegram_bot_token :: "string option"
  now :: int
  fresh_alert_id :: string

text \<open>
  The state the services read and write: the tables, the cache, and what has been
  observed to leave the process (socket emissions, channel send attempts, log lines).
\<close>

record world =
  agents :: "agent_row list"
  agent_metrics :: "metric_row list"
  alerts :: "alert_row list"
  users :: "user_row list"
  notification_settings :: "NotificationSettings list"
  redis_store :: "string \<Rightarrow> (payload \<times> nat) option"
  emitted :: "(string \<times> string \<times> payload) list"
  dispatched :: "(channel \<times> string) list"
  logs :: "(log_level \<times> string) list"

definition logger :: "log_level \<Rightarrow> string \<Rightarrow> world \<Rightarrow> world" where
  "logger lvl msg w = w\<lparr>logs := logs w @ [(lvl, msg)]\<rparr>"

definition db_error :: error where
  "db_error = ExternalFailure ''database''"

section \<open>Health aggregation (\<^verbatim>\<open>MonitoringService.getSystemHealth\<close>)\<close>

text \<open>
  The lateral join \<^verbatim>\<open>ORDER BY recorded_at DESC LIMIT 1\<close>: the sample of the agent with
  the greatest \<open>recorded_at\<close> (the earliest in table order among equal timestamps, where
  SQL leaves the choice open).
\<close>

fun latest_metrics :: "metric_row list \<Rightarrow> string \<Rightarrow> metric_row option" where
  "latest_metrics [] aid = None"
| "latest_metrics (m # ms) aid =
     (if metric_agent_id m = aid then
        (case latest_metrics ms aid of
           None \<Rightarrow> Some m
         | Some m' \<Rightarrow> if recorded_at m < recorded_at m' then Some m' else Some m)
      else latest_metrics ms aid)"

text \<open>
  \<^verbatim>\<open>CASE WHEN latest_metrics.uptime IS NOT NULL THEN latest_metrics.uptime ELSE 0 END\<close> for
  one agent of the left join: no sample, or a sample whose uptime is NULL, counts as 0.
\<close>

definition uptime_or_zero :: "metric_row list \<Rightarrow> agent_row \<Rightarrow> real" where
  "uptime_or_zero ms a =
     (case latest_metrics ms (agent_id a) of
        None \<Rightarrow> 0
      | Some m \<Rightarrow> (case uptime m of None \<Rightarrow> 0 | Some u \<Rightarrow> u))"

text \<open>SQL \<^verbatim>\<open>AVG\<close>: NULL over no rows, the exact quotient otherwise.\<close>

definition sql_avg :: "real list \<Rightarrow> real option" where
  "sql_avg xs = (if xs = [] then None else Some (sum_list xs / real (length xs)))"

definition system_stats_query :: "world \<Rightarrow> stats_row" where
  "system_stats_query w =
     \<lparr>total_agents = length (agents w),
      active_agents = length (filter (\<lambda>a. agent_status a = ACTIVE) (agents w)),
      error_agents = length (filter (\<lambda>a. agent_status a = ERROR) (agents w)),
      avg_uptime = sql_avg (map (uptime_or_zero (agent_metrics w)) (agents w))\<rparr>"

definition unresolved_alerts_query :: "world \<Rightarrow> nat" where
  "unresolved_alerts_query w = length (filter (\<lambda>a. \<not> resolved a) (alerts w))"

text \<open>
  JavaScript's coercions on the \<open>avg_uptime\<close> column, which the driver hands over as a
  decimal string or \<^verbatim>\<open>null\<close>: in \<^verbatim>\<open>stats.avg_uptime < 95\<close> the value goes through ToNumber
  (\<^verbatim>\<open>null\<close> becomes 0); \<^verbatim>\<open>parseFloat(null)\<close> is NaN and \<^verbatim>\<open>NaN || 0\<close> is 0.
\<close>

definition ToNumber :: "real option \<Rightarrow> real" where
  "ToNumber v = (case v of None \<Rightarrow> 0 | Some x \<Rightarrow> x)"

definition parseFloat_or_zero :: "real option \<Rightarrow> real" where
  "parseFloat_or_zero v = (case v of None \<Rightarrow> 0 | Some x \<Rightarrow> (if x = 0 then 0 else x))"

text \<open>The block under \<^verbatim>\<open>// Determine system status\<close>.\<close>

definition determineSystemStatus :: "stats_row \<Rightarrow> nat \<Rightarrow> systemStatus" where
  "determineSystemStatus stats unresolved =
     (if 0 < error_agents stats \<or> 10 < unresolved then critical
      else if ToNumber (avg_uptime stats) < 95 \<or> 5 < unresolved then warning
      else healthy)"

definition buildSystemHealth :: "stats_row \<Rightarrow> nat \<Rightarrow> SystemHealth" where
  "buildSystemHealth stats unresolved =
     \<lparr>totalAgents = total_agents stats,
      activeAgents = active_agents stats,
      errorAgents = error_agents stats,
      avgUptime = parseFloat_or_zero (avg_uptime stats),
      unresolvedAlerts = unresolved,
      systemStatus = determineSystemStatus stats unresolved\<rparr>"

text \<open>
  \<^verbatim>\<open>getSystemHealth\<close>: two queries, then the classification; a failing query is logged
  and rethrown.
\<close>

definition getSystemHealth :: "env \<Rightarrow> world \<Rightarrow> (error + SystemHealth) \<times> world" where
  "getSystemHealth e w =
     (if query_fails e Q_systemStats \<or> query_fails e Q_unresolvedAlerts
      then (Inl db_error, logger LogError ''Failed to get system health'' w)
      else (Inr (buildSystemHealth (system_stats_query w) (unresolved_alerts_query w)), w))"

definition emit :: "string \<Rightarrow> string \<Rightarrow> payload \<Rightarrow> world \<Rightarrow> world" where
  "emit room event p w = w\<lparr>emitted := emitted w @ [(room, event, p)]\<rparr>"

section \<open>Notification fanout (\<^verbatim>\<open>NotificationService\<close>)\<close>

text \<open>JavaScript truthiness of an optional string: absent and empty are falsy.\<close>

definition truthy :: "string option \<Rightarrow> bool" where
  "truthy v = (case v of None \<Rightarrow> False | Some s \<Rightarrow> s \<noteq> [])"

text \<open>
  \<^verbatim>\<open>getUserNotificationSettings\<close>: the first row of the subscriber, \<^verbatim>\<open>null\<close> when there is
  none, and \<^verbatim>\<open>null\<close> as well (after a log line) when the query raises.
\<close>

definition getUserNotificationSettings ::
  "env \<Rightarrow> string \<Rightarrow> world \<Rightarrow> NotificationSettings option \<times> world" where
  "getUserNotificationSettings e userId w =
     (if query_fails e Q_notificationSettings
      then (None, logger LogError ''Failed to get notification settings'' w)
      else (find (\<lambda>s. settings_user_id s = userId) (notification_settings w), w))"

text \<open>
  The four channel senders share one shape: build the message, await the transport, log
  success; on any error log it and rethrow. \<open>dispatched\<close> records that the sender was
  invoked for the alert. The bot-chat sender raises before its transport call when no
  bot token is configured.
\<close>

definition sendEmailAlert :: "env \<Rightarrow> user_row \<Rightarrow> MonitoringAlert \<Rightarrow> world \<Rightarrow> (error + unit) \<times> world" where
  "sendEmailAlert e user alert w =
     (let w1 = w\<lparr>dispatched := dispatched w @ [(Email, ma_id alert)]\<rparr> in
      if channel_fails e Email
      then (Inl (ExternalFailure ''smtp''), logger LogError ''Failed to send email alert'' w1)
      else (Inr (), logger Info ''Email alert sent'' w1))"

definition sendSlackAlert :: "env \<Rightarrow> string \<Rightarrow> MonitoringAlert \<Rightarrow> world \<Rightarrow> (error + unit) \<times> world" where
  "sendSlackAlert e webhookUrl alert w =
     (let w1 = w\<lparr>dispatched := dispatched w @ [(Slack, ma_id alert)]\<rparr> in
      if channel_fails e Slack
      then (Inl (ExternalFailure ''slack''), logger LogError ''Failed to send Slack alert'' w1)
      else (Inr (), logger Info ''Slack alert sent'' w1))"

definition sendTelegramAlert :: "env \<Rightarrow> string \<Rightarrow> MonitoringAlert \<Rightarrow> world \<Rightarrow> (error + unit) \<times> world" where
  "sendTelegramAlert e chatId alert w =
     (let w1 = w\<lparr>dispatched := dispatched w @ [(Telegram, ma_id alert)]\<rparr> in
      if \<not> truthy (telegram_bot_token e)
      then (Inl (Error ''Telegram bot token not configured''),
            logger LogError ''Failed to send Telegram alert'' w1)
      else if channel_fails e Telegram
      then (Inl (ExternalFailure ''telegram''), logger LogError ''Failed to send Telegram alert'' w1)
      else (Inr (), logger Info ''Telegram alert sent'' w1))"

definition sendWebhookAlert :: "env \<Rightarrow> string \<Rightarrow> MonitoringAlert \<Rightarrow> world \<Rightarrow> (error + unit) \<times> world" where
  "sendWebhookAlert e webhookUrl alert w =
     (let w1 = w\<lparr>dispatched := dispatched w @ [(Webhook, ma_id alert)]\<rparr> in
      if channel_fails e Webhook
      then (Inl (ExternalFailure ''webhook''), logger LogError ''Failed to send webhook alert'' w1)
      else (Inr (), logger Info ''Webhook alert sent'' w1))"

text \<open>
  The array \<^verbatim>\<open>notifications\<close> of \<^verbatim>\<open>sendAlert\<close>: one entry per enabled channel, in the
  order of the four \<^verbatim>\<open>if\<close> statements.
\<close>

definition notifications :: "NotificationSettings \<Rightarrow> channel list" where
  "notifications s =
     (if email_enabled s then [Email] else []) @
     (if truthy (slack_webhook_url s) then [Slack] else []) @
     (if truthy (telegram_chat_id s) then [Telegram] else []) @
     (if truthy (webhook_url s) then [Webhook] else [])"

text \<open>
  The channels that a settings row enables, read off its fields: the mail flag is set;
  the endpoint of a chat webhook, of the bot chat or of the generic webhook is present
  and not the empty string.
\<close>

abbreviation enabled_channels :: "NotificationSettings \<Rightarrow> channel list" where
  "enabled_channels s \<equiv>
     filter (\<lambda>c. case c of
                Email \<Rightarrow> email_enabled s
              | Slack \<Rightarrow> slack_webhook_url s \<noteq> None \<and> slack_webhook_url s \<noteq> Some []
              | Telegram \<Rightarrow> telegram_chat_id s \<noteq> None \<and> telegram_chat_id s \<noteq> Some []
              | Webhook \<Rightarrow> webhook_url s \<noteq> None \<and> webhook_url s \<noteq> Some [])
       [Email, Slack, Telegram, Webhook]"

definition send_on :: "env \<Rightarrow> NotificationSettings \<Rightarrow> user_row \<Rightarrow> channel \<Rightarrow> MonitoringAlert \<Rightarrow> world
    \<Rightarrow> (error + unit) \<times> world" where
  "send_on e s user c alert w =
     (case c of
        Email \<Rightarrow> sendEmailAlert e user alert w
      | Slack \<Rightarrow> sendSlackAlert e (case slack_webhook_url s of None \<Rightarrow> [] | Some u \<Rightarrow> u) alert w
      | Telegram \<Rightarrow> sendTelegramAlert e (case telegram_chat_id s of None \<Rightarrow> [] | Some u \<Rightarrow> u) alert w
      | Webhook \<Rightarrow> sendWebhookAlert e (case webhook_url s of None \<Rightarrow> [] | Some u \<Rightarrow> u) alert w)"

text \<open>
  \<^verbatim>\<open>Promise.allSettled\<close>: every sender of the list runs, and each outcome, fulfilled or
  rejected, is collected instead of raised. The senders run concurrently in the source;
  the model lets them take effect in the order they were started.
\<close>

fun allSettled :: "env \<Rightarrow> NotificationSettings \<Rightarrow> user_row \<Rightarrow> channel list \<Rightarrow> MonitoringAlert \<Rightarrow> world
    \<Rightarrow> (error + unit) list \<times> world" where
  "allSettled e s user [] alert w = ([], w)"
| "allSettled e s user (c # cs) alert w =
     (case send_on e s user c alert w of
        (r, w1) \<Rightarrow> (case allSettled e s user cs alert w1 of (rs, w2) \<Rightarrow> (r # rs, w2)))"

text \<open>The body of the \<^verbatim>\<open>try\<close> block of \<^verbatim>\<open>sendAlert\<close>.\<close>

definition sendAlert_try :: "env \<Rightarrow> string \<Rightarrow> MonitoringAlert \<Rightarrow> world \<Rightarrow> (error + unit) \<times> world" where
  "sendAlert_try e userId alert w =
     (case getUserNotificationSettings e userId w of
        (None, w1) \<Rightarrow> (Inr (), logger Warn ''No notification settings found for user'' w1)
      | (Some settings, w1) \<Rightarrow>
          (if query_fails e Q_userById then (Inl db_error, w1)
           else (case find (\<lambda>u. user_id u = userId) (users w1) of
                   None \<Rightarrow> (Inr (), logger Warn ''User not found'' w1)
                 | Some user \<Rightarrow>
                     (case allSettled e settings user (notifications settings) alert w1 of
                        (rs, w2) \<Rightarrow> (Inr (), logger Info ''Alert notifications sent'' w2)))))"

text \<open>\<^verbatim>\<open>sendAlert\<close>: the \<^verbatim>\<open>catch\<close> logs the error and does not rethrow it.\<close>

definition sendAlert :: "env \<Rightarrow> string \<Rightarrow> MonitoringAlert \<Rightarrow> world \<Rightarrow> (error + unit) \<times> world" where
  "sendAlert e userId alert w =
     (case sendAlert_try e userId alert w of
        (Inl err, w1) \<Rightarrow> (Inr (), logger LogError ''Failed to send alert notifications'' w1)
      | (Inr u, w1) \<Rightarrow> (Inr u, w1))"

definition sendTestNotification :: "env \<Rightarrow> string \<Rightarrow> world \<Rightarrow> (error + unit) \<times> world" where
  "sendTestNotification e userId w =
     sendAlert e userId
       \<lparr>ma_id = ''test-alert'', ma_agentId = ''test-agent'', ma_type = ''test_notification'',
        ma_severity = MEDIUM,
        ma_message = ''This is a test notification from Mentis Protocol. Your notification settings are working correctly!'',
        ma_timestamp = now e, ma_resolved = False\<rparr> w"

section \<open>Alert lifecycle (\<^verbatim>\<open>MonitoringService.createAlert\<close>, \<^verbatim>\<open>AgentService.resolveAlert\<close>)\<close>

text \<open>
  \<^verbatim>\<open>AgentService.getAgentById\<close>: the row, \<^verbatim>\<open>null\<close> when there is none; a failing query
  is logged and rethrown. Of the columns only the id, the owner and the status are kept;
  the joined metrics and the parsed \<open>config\<close> play no part in what follows.
\<close>

definition getAgentById :: "env \<Rightarrow> string \<Rightarrow> world \<Rightarrow> (error + agent_row option) \<times> world" where
  "getAgentById e agentId w =
     (if query_fails e Q_getAgentById
      then (Inl db_error, logger LogError ''Failed to get agent'' w)
      else (Inr (find (\<lambda>a. agent_id a = agentId) (agents w)), w))"

record alertData =
  ad_type :: string
  ad_severity :: AlertSeverity
  ad_message :: string

text \<open>The row that the \<^verbatim>\<open>INSERT INTO alerts\<close> of \<^verbatim>\<open>createAlert\<close> adds; the columns it
  does not name take the defaults of the schema.\<close>

definition inserted_alert :: "env \<Rightarrow> string \<Rightarrow> agent_row \<Rightarrow> alertData \<Rightarrow> alert_row" where
  "inserted_alert e agentId agent d =
     \<lparr>alert_id = fresh_alert_id e, alert_agent_id = agentId, alert_user_id = agent_user_id agent,
      alert_type = ad_type d, alert_severity = ad_severity d, alert_message = ad_message d,
      resolved = False, resolved_at = None, resolved_by = None, created_at = now e\<rparr>"

definition alert_object :: "env \<Rightarrow> string \<Rightarrow> alertData \<Rightarrow> MonitoringAlert" where
  "alert_object e agentId d =
     \<lparr>ma_id = fresh_alert_id e, ma_agentId = agentId, ma_type = ad_type d,
      ma_severity = ad_severity d, ma_message = ad_message d, ma_timestamp = now e,
      ma_resolved = False\<rparr>"

text \<open>The body of the \<^verbatim>\<open>try\<close> block of \<^verbatim>\<open>createAlert\<close>, statement by statement.\<close>

definition createAlert_try :: "env \<Rightarrow> string \<Rightarrow> alertData \<Rightarrow> world \<Rightarrow> (error + string) \<times> world" where
  "createAlert_try e agentId d w =
     (case getAgentById e agentId w of
        (Inl err, w1) \<Rightarrow> (Inl err, w1)
      | (Inr None, w1) \<Rightarrow> (Inl (Error ''Agent not found''), w1)
      | (Inr (Some agent), w1) \<Rightarrow>
          (if query_fails e Q_insertAlert then (Inl db_error, w1)
           else
             (let alert = alert_object e agentId d;
                  w2 = w1\<lparr>alerts := alerts w1 @ [inserted_alert e agentId agent d]\<rparr>;
                  w3 = emit (''agent-'' @ agentId) ''alert'' (AlertPayload alert) w2;
                  w4 = emit (''user-'' @ agent_user_id agent) ''alert'' (AlertPayload alert) w3
              in (case (if ad_severity d = HIGH \<or> ad_severity d = CRITICAL
                        then sendAlert e (agent_user_id agent) alert w4
                        else (Inr (), w4)) of
                    (Inl err, w5) \<Rightarrow> (Inl err, w5)
                  | (Inr u, w5) \<Rightarrow>
                      (if redis_fails e then (Inl (ExternalFailure ''redis''), w5)
                       else (Inr (fresh_alert_id e),
                             logger Info ''Alert created''
                               (w5\<lparr>redis_store := (redis_store w5)
                                     (''alert:'' @ fresh_alert_id e \<mapsto> (AlertPayload alert, 3600))\<rparr>)))))))"

text \<open>\<^verbatim>\<open>createAlert\<close>: the \<^verbatim>\<open>catch\<close> logs the error and rethrows it.\<close>

definition createAlert :: "env \<Rightarrow> string \<Rightarrow> alertData \<Rightarrow> world \<Rightarrow> (error + string) \<times> world" where
  "createAlert e agentId d w =
     (case createAlert_try e agentId d w of
        (Inl err, w1) \<Rightarrow> (Inl err, logger LogError ''Failed to create alert'' w1)
      | (Inr aid, w1) \<Rightarrow> (Inr aid, w1))"

text \<open>
  \<^verbatim>\<open>AgentService.resolveAlert\<close>: one \<^verbatim>\<open>UPDATE alerts SET resolved = true, resolved_at =
  CURRENT_TIMESTAMP, resolved_by = $1 WHERE id = $2\<close>, whose \<^verbatim>\<open>WHERE\<close> clause names the id
  only. The column \<open>resolved_by\<close> references \<^verbatim>\<open>users(id)\<close>: when the statement reaches a
  row and the resolver is no user, the store rejects it, no row changes, and the error is
  logged and rethrown like any other failure of the query.
\<close>

definition resolve_row :: "int \<Rightarrow> string \<Rightarrow> alert_row \<Rightarrow> alert_row" where
  "resolve_row t userId a = a\<lparr>resolved := True, resolved_at := Some t, resolved_by := Some userId\<rparr>"

definition resolveAlert :: "env \<Rightarrow> string \<Rightarrow> string \<Rightarrow> world \<Rightarrow> (error + unit) \<times> world" where
  "resolveAlert e alertId userId w =
     (if query_fails e Q_resolveAlert
      then (Inl db_error, logger LogError ''Failed to resolve alert'' w)
      else if find (\<lambda>a. alert_id a = alertId) (alerts w) \<noteq> None
              \<and> find (\<lambda>u. user_id u = userId) (users w) = None
      then (Inl db_error, logger LogError ''Failed to resolve alert'' w)
      else (Inr (),
            logger Info ''Alert resolved''
              (w\<lparr>alerts := map (\<lambda>a. if alert_id a = alertId then resolve_row (now e) userId a else a)
                               (alerts w)\<rparr>)))"

text \<open>The resolution columns of the alert with a given id, as a reader of the table sees
  them.\<close>

definition resolution_of :: "world \<Rightarrow> string \<Rightarrow> (bool \<times> int option \<times> string option) option" where
  "resolution_of w alertId =
     (case find (\<lambda>a. alert_id a = alertId) (alerts w) of
        None \<Rightarrow> None
      | Some a \<Rightarrow> Some (resolved a, resolved_at a, resolved_by a))"


section \<open>Health check executor (\<^verbatim>\<open>MonitoringService.performAgentHealthCheck\<close>)\<close>

text \<open>
  \<^verbatim>\<open>AgentService.executeAgentTask\<close> hands the task to the agent runtime, an opaque
  collaborator whose answer the environment fixes; a failure is logged and rethrown.
\<close>

definition executeAgentTask :: "env \<Rightarrow> string \<Rightarrow> world \<Rightarrow> (error + agent_task) \<times> world" where
  "executeAgentTask e agentId w =
     (let w1 = logger Info ''Executing agent task'' w in
      case task_outcome e agentId of
        Inl err \<Rightarrow> (Inl err, logger LogError ''Failed to execute agent task'' w1)
      | Inr t \<Rightarrow> (Inr t, w1))"

text \<open>
  \<^verbatim>\<open>AgentService.updateAgent(agentId, {last_health_check: new Date()})\<close>: the \<^verbatim>\<open>UPDATE ...
  RETURNING\<close> that returns no row raises \<^verbatim>\<open>Agent not found\<close>; every error is logged and
  rethrown.
\<close>

definition updateAgent_last_health_check :: "env \<Rightarrow> string \<Rightarrow> world \<Rightarrow> (error + unit) \<times> world" where
  "updateAgent_last_health_check e agentId w =
     (if query_fails e Q_updateAgent
      then (Inl db_error, logger LogError ''Failed to update agent'' w)
      else if find (\<lambda>a. agent_id a = agentId) (agents w) = None
      then (Inl (Error ''Agent not found''), logger LogError ''Failed to update agent'' w)
      else (Inr (),
            logger Info ''Agent updated successfully''
              (w\<lparr>agents := map (\<lambda>a. if agent_id a = agentId
                                      then a\<lparr>last_health_check := Some (now e)\<rparr> else a)
                               (agents w)\<rparr>)))"

text \<open>\<^verbatim>\<open>error instanceof Error ? error.message : 'Unknown error'\<close>.\<close>

definition error_message :: "error \<Rightarrow> string" where
  "error_message err = (case err of Error m \<Rightarrow> m | ExternalFailure c \<Rightarrow> c)"

definition performAgentHealthCheck_try :: "env \<Rightarrow> string \<Rightarrow> world \<Rightarrow> (error + unit) \<times> world" where
  "performAgentHealthCheck_try e agentId w =
     (case executeAgentTask e agentId w of
        (Inl err, w1) \<Rightarrow> (Inl err, w1)
      | (Inr task, w1) \<Rightarrow>
          updateAgent_last_health_check e agentId
            (emit (''agent-'' @ agentId) ''health_check'' (HealthCheckPayload agentId task (now e)) w1))"

text \<open>
  \<^verbatim>\<open>performAgentHealthCheck\<close>: the \<^verbatim>\<open>catch\<close> logs the failure and awaits \<^verbatim>\<open>createAlert\<close>;
  nothing encloses that call, so what it raises leaves the function.
\<close>

definition performAgentHealthCheck :: "env \<Rightarrow> string \<Rightarrow> world \<Rightarrow> (error + unit) \<times> world" where
  "performAgentHealthCheck e agentId w =
     (case performAgentHealthCheck_try e agentId w of
        (Inr u, w1) \<Rightarrow> (Inr (), w1)
      | (Inl err, w1) \<Rightarrow>
          (case createAlert e agentId
                  \<lparr>ad_type = ''health_check_failed'', ad_severity = CRITICAL,
                   ad_message = ''Health check failed: '' @ error_message err\<rparr>
                  (logger LogError ''Agent health check failed'' w1) of
             (Inl err2, w2) \<Rightarrow> (Inl err2, w2)
           | (Inr aid, w2) \<Rightarrow> (Inr (), w2)))"

text \<open>
  The same function cut at its first suspension. A call of \<^verbatim>\<open>performAgentHealthCheck\<close>
  runs synchronously into \<^verbatim>\<open>executeAgentTask\<close>, which logs its start line and then awaits
  the agent runtime; everything else happens when that promise settles.
\<close>

definition executeAgentTask_begin :: "world \<Rightarrow> world" where
  "executeAgentTask_begin w = logger Info ''Executing agent task'' w"

definition performAgentHealthCheck_resume :: "env \<Rightarrow> string \<Rightarrow> world \<Rightarrow> (error + unit) \<times> world" where
  "performAgentHealthCheck_resume e agentId w1 =
     (case (case task_outcome e agentId of
              Inl err \<Rightarrow> (Inl err, logger LogError ''Failed to execute agent task'' w1)
            | Inr task \<Rightarrow>
                updateAgent_last_health_check e agentId
                  (emit (''agent-'' @ agentId) ''health_check''
                     (HealthCheckPayload agentId task (now e)) w1)) of
        (Inr u, w2) \<Rightarrow> (Inr (), w2)
      | (Inl err, w2) \<Rightarrow>
          (case createAlert e agentId
                  \<lparr>ad_type = ''health_check_failed'', ad_severity = CRITICAL,
                   ad_message = ''Health check failed: '' @ error_message err\<rparr>
                  (logger LogError ''Agent health check failed'' w2) of
             (Inl err2, w3) \<Rightarrow> (Inl err2, w3)
           | (Inr aid, w3) \<Rightarrow> (Inr (), w3)))"

section \<open>Job scheduler (\<^verbatim>\<open>MonitoringService\<close>)\<close>

text \<open>
  The fields of the service object, and beside them what the timer library holds: the
  recurring triggers that were started and not destroyed (handle and the id they serve),
  the next handle it hands out, and per agent the number of
  \<^verbatim>\<open>performAgentHealthCheck\<close> calls that a trigger has begun and that have not settled yet.
\<close>

record service =
  monitoringJobs :: "string \<Rightarrow> nat option"
  isRunning :: bool
  cron_started :: "(nat \<times> string) list"
  cron_next :: nat
  in_flight :: "string \<Rightarrow> nat"

definition init_service :: service where
  "init_service =
     \<lparr>monitoringJobs = (\<lambda>k. None), isRunning = False, cron_started = [], cron_next = 0,
      in_flight = (\<lambda>k. 0)\<rparr>"

text \<open>
  \<^verbatim>\<open>startAgentMonitoring\<close>: \<^verbatim>\<open>monitoringJobs.has(agentId)\<close> returns early with a warning;
  otherwise the job is scheduled, started and registered, and the initial check is
  awaited (its error is logged and rethrown, the job stays registered).
\<close>

definition startAgentMonitoring ::
  "env \<Rightarrow> string \<Rightarrow> service \<times> world \<Rightarrow> (error + unit) \<times> service \<times> world" where
  "startAgentMonitoring e agentId sw =
     (case sw of (s, w) \<Rightarrow>
        (if monitoringJobs s agentId \<noteq> None
         then (Inr (), s, logger Warn ''Agent monitoring already active'' w)
         else
           (let w1 = logger Info ''Starting agent monitoring'' w;
                h = cron_next s;
                s1 = s\<lparr>cron_next := Suc h,
                       cron_started := cron_started s @ [(h, agentId)],
                       monitoringJobs := (monitoringJobs s)(agentId \<mapsto> h)\<rparr>
            in (case performAgentHealthCheck e agentId w1 of
                  (Inl err, w2) \<Rightarrow> (Inl err, s1, logger LogError ''Failed to start agent monitoring'' w2)
                | (Inr u, w2) \<Rightarrow> (Inr (), s1, logger Info ''Agent monitoring started'' w2)))))"

text \<open>\<^verbatim>\<open>stopAgentMonitoring\<close>: returns silently when no job is registered; otherwise
  destroys the trigger and deletes the entry.\<close>

definition stopAgentMonitoring :: "string \<Rightarrow> service \<times> world \<Rightarrow> service \<times> world" where
  "stopAgentMonitoring agentId sw =
     (case sw of (s, w) \<Rightarrow>
        (case monitoringJobs s agentId of
           None \<Rightarrow> (s, w)
         | Some h \<Rightarrow>
             (s\<lparr>cron_started := filter (\<lambda>t. fst t \<noteq> h) (cron_started s),
                monitoringJobs := (monitoringJobs s)(agentId := None)\<rparr>,
              logger Info ''Stopping agent monitoring'' w)))"

text \<open>The number of live recurring triggers that serve an id.\<close>

definition jobs_for :: "service \<Rightarrow> string \<Rightarrow> nat" where
  "jobs_for s agentId = length (filter (\<lambda>t. snd t = agentId) (cron_started s))"

text \<open>Any sequence of calls to the two management operations.\<close>

datatype management_call = StartAgent env string | StopAgent string

fun manage :: "management_call \<Rightarrow> service \<times> world \<Rightarrow> service \<times> world" where
  "manage (StartAgent e agentId) sw = snd (startAgentMonitoring e agentId sw)"
| "manage (StopAgent agentId) sw = stopAgentMonitoring agentId sw"

fun manage_all :: "management_call list \<Rightarrow> service \<times> world \<Rightarrow> service \<times> world" where
  "manage_all [] sw = sw"
| "manage_all (c # cs) sw = manage_all cs (manage c sw)"

text \<open>
  The callback handed to \<^verbatim>\<open>cron.schedule\<close> for an agent:
  \<^verbatim>\<open>async () => { await this.performAgentHealthCheck(agentId); }\<close>.
\<close>

definition agent_monitor_tick :: "env \<Rightarrow> string \<Rightarrow> world \<Rightarrow> (error + unit) \<times> world" where
  "agent_monitor_tick e agentId w = performAgentHealthCheck e agentId w"

text \<open>The callback of \<^verbatim>\<open>startSystemHealthMonitoring\<close>: its whole body is in a \<^verbatim>\<open>try\<close> whose
  \<^verbatim>\<open>catch\<close> only logs.\<close>

definition system_health_try :: "env \<Rightarrow> world \<Rightarrow> (error + unit) \<times> world" where
  "system_health_try e w =
     (case getSystemHealth e w of
        (Inl err, w1) \<Rightarrow> (Inl err, w1)
      | (Inr h, w1) \<Rightarrow>
          (let w2 = emit ''*'' ''system_health'' (SystemHealthPayload h) w1 in
           if redis_fails e then (Inl (ExternalFailure ''redis''), w2)
           else
             (let w3 = w2\<lparr>redis_store := (redis_store w2)
                           (''system:health'' \<mapsto> (SystemHealthPayload h, 300))\<rparr>
              in (Inr (), if systemStatus h = critical
                          then logger Warn ''System health is critical'' w3 else w3))))"

definition system_health_tick :: "env \<Rightarrow> world \<Rightarrow> (error + unit) \<times> world" where
  "system_health_tick e w =
     (case system_health_try e w of
        (Inl err, w1) \<Rightarrow> (Inr (), logger LogError ''System health monitoring failed'' w1)
      | (Inr u, w1) \<Rightarrow> (Inr u, w1))"

text \<open>
  The callback of \<^verbatim>\<open>startPeriodicCleanup\<close>. The two \<^verbatim>\<open>DELETE\<close> statements compare with
  \<^verbatim>\<open>NOW() - INTERVAL '30 days'\<close> and \<^verbatim>\<open>NOW() - INTERVAL '7 days'\<close>; a comparison with a NULL
  \<open>resolved_at\<close> is not true in SQL, so such a row stays.
\<close>

definition days :: "int \<Rightarrow> int" where
  "days n = n * 86400"

definition metric_expired :: "int \<Rightarrow> metric_row \<Rightarrow> bool" where
  "metric_expired t m = (recorded_at m < t - days 30)"

definition alert_expired :: "int \<Rightarrow> alert_row \<Rightarrow> bool" where
  "alert_expired t a =
     (resolved a \<and> (case resolved_at a of None \<Rightarrow> False | Some r \<Rightarrow> r < t - days 7))"

definition cleanup_try :: "env \<Rightarrow> world \<Rightarrow> (error + unit) \<times> world" where
  "cleanup_try e w =
     (if query_fails e Q_deleteOldMetrics then (Inl db_error, w)
      else
        (let w1 = w\<lparr>agent_metrics := filter (\<lambda>m. \<not> metric_expired (now e) m) (agent_metrics w)\<rparr> in
         if query_fails e Q_deleteResolvedAlerts then (Inl db_error, w1)
         else (Inr (),
               logger Info ''Periodic cleanup completed''
                 (w1\<lparr>alerts := filter (\<lambda>a. \<not> alert_expired (now e) a) (alerts w1)\<rparr>))))"

definition cleanup_tick :: "env \<Rightarrow> world \<Rightarrow> (error + unit) \<times> world" where
  "cleanup_tick e w =
     (case cleanup_try e w of
        (Inl err, w1) \<Rightarrow> (Inr (), logger LogError ''Periodic cleanup failed'' w1)
      | (Inr u, w1) \<Rightarrow> (Inr u, w1))"

text \<open>
  The event loop as seen from one agent's job. \<open>Fire\<close>: the timer reaches a cadence
  instant of a live trigger and calls the callback, which calls
  \<^verbatim>\<open>performAgentHealthCheck\<close> at once; the call runs up to its first \<^verbatim>\<open>await\<close> (the start
  line of \<^verbatim>\<open>executeAgentTask\<close> is logged) and suspends. \<open>Settle\<close>: a suspended call
  resumes and runs to its end. The callback reads no state before it starts the check,
  and the timer is given no option that would make it wait for the promise of the
  previous call. \<open>in_flight\<close> counts the suspended calls.
\<close>

datatype event = Fire string | Settle string

fun step :: "env \<Rightarrow> event \<Rightarrow> service \<times> world \<Rightarrow> service \<times> world" where
  "step e (Fire a) (s, w) =
     (case monitoringJobs s a of
        None \<Rightarrow> (s, w)
      | Some h \<Rightarrow> (s\<lparr>in_flight := (in_flight s)(a := Suc (in_flight s a))\<rparr>,
                   executeAgentTask_begin w))"
| "step e (Settle a) (s, w) =
     (if in_flight s a = 0 then (s, w)
      else (s\<lparr>in_flight := (in_flight s)(a := in_flight s a - 1)\<rparr>,
            snd (performAgentHealthCheck_resume e a w)))"

fun run :: "env \<Rightarrow> event list \<Rightarrow> service \<times> world \<Rightarrow> service \<times> world" where
  "run e [] sw = sw"
| "run e (ev # evs) sw = run e evs (step e ev sw)"

section \<open>Concrete environments and states\<close>

definition env_ok :: env where
  "env_ok =
     \<lparr>query_fails = (\<lambda>q. False), redis_fails = False,
      task_outcome = (\<lambda>a. Inr \<lparr>task_status = ''completed'', task_result = ''ok''\<rparr>),
      channel_fails = (\<lambda>c. False), telegram_bot_token = Some ''token'',
      now = 1000000, fresh_alert_id = ''alert-9''\<rparr>"

definition world_empty :: world where
  "world_empty =
     \<lparr>agents = [], agent_metrics = [], alerts = [], users = [], notification_settings = [],
      redis_store = (\<lambda>k. None), emitted = [], dispatched = [], logs = []\<rparr>"

definition agent_a1 :: agent_row where
  "agent_a1 = \<lparr>agent_id = ''a1'', agent_user_id = ''u1'', agent_status = ACTIVE,
               last_health_check = None\<rparr>"

definition settings_u1 :: NotificationSettings where
  "settings_u1 = \<lparr>settings_user_id = ''u1'', email_enabled = True,
                  slack_webhook_url = Some ''https://hooks.example/s'',
                  telegram_chat_id = None, webhook_url = None\<rparr>"

definition world_one :: world where
  "world_one =
     world_empty\<lparr>agents := [agent_a1],
                 users := [\<lparr>user_id = ''u1'', email = ''u1@example.org''\<rparr>],
                 notification_settings := [settings_u1]\<rparr>"


text \<open>A database outage during which the agent runtime fails as well.\<close>

definition env_outage :: env where
  "env_outage =
     env_ok\<lparr>query_fails := (\<lambda>q. True),
            task_outcome := (\<lambda>a. Inl (ExternalFailure ''agent-runtime''))\<rparr>"

definition alert_x :: MonitoringAlert where
  "alert_x = \<lparr>ma_id = ''alert-1'', ma_agentId = ''a1'', ma_type = ''latency'',
              ma_severity = HIGH, ma_message = ''slow'', ma_timestamp = 999000,
              ma_resolved = False\<rparr>"

definition alert_open :: alert_row where
  "alert_open = \<lparr>alert_id = ''al1'', alert_agent_id = ''a1'', alert_user_id = ''u1'',
                 alert_type = ''latency'', alert_severity = HIGH, alert_message = ''slow'',
                 resolved = False, resolved_at = None, resolved_by = None, created_at = 50\<rparr>"

text \<open>
  Three alerts, all created at time 50 and seen at time 1000000: one resolved 8 days
  ago, one resolved 6 days ago, one never resolved; and two metric samples, 31 and 29
  days old.
\<close>

definition alert_8d :: alert_row where
  "alert_8d = alert_open\<lparr>alert_id := ''al8'', resolved := True,
                resolved_at := Some (1000000 - days 8), resolved_by := Some ''u1''\<rparr>"

definition alert_6d :: alert_row where
  "alert_6d = alert_open\<lparr>alert_id := ''al6'', resolved := True,
                resolved_at := Some (1000000 - days 6), resolved_by := Some ''u1''\<rparr>"

definition world_sweep :: world where
  "world_sweep =
     world_one\<lparr>alerts := [alert_8d, alert_6d, alert_open],
               agent_metrics :=
                 [\<lparr>metric_agent_id = ''a1'', uptime = Some 99, recorded_at = 1000000 - days 31\<rparr>,
                  \<lparr>metric_agent_id = ''a1'', uptime = Some 98, recorded_at = 1000000 - days 29\<rparr>]\<rparr>"

text \<open>
  A second subscriber whose only configured channel is the generic webhook (the chat id
  is the empty string), and a store that holds both subscribers and one open alert.
\<close>

definition settings_u2 :: NotificationSettings where
  "settings_u2 = \<lparr>settings_user_id = ''u2'', email_enabled = False,
                  slack_webhook_url = None, telegram_chat_id = Some [],
                  webhook_url = Some ''https://hooks.example/w''\<rparr>"

definition world_two :: world where
  "world_two =
     world_one\<lparr>users := [\<lparr>user_id = ''u1'', email = ''u1@example.org''\<rparr>,
                         \<lparr>user_id = ''u2'', email = ''u2@example.org''\<rparr>],
               notification_settings := [settings_u1, settings_u2],
               alerts := [alert_open]\<rparr>"

text \<open>An alert created 8 days before time 1000000 and resolved one day before it.\<close>

definition alert_recent :: alert_row where
  "alert_recent = alert_open\<lparr>alert_id := ''al9'', created_at := 1000000 - days 8,
                    resolved := True, resolved_at := Some (1000000 - days 1),
                    resolved_by := Some ''u1''\<rparr>"


section \<open>Invariant of the job registry\<close>

text \<open>
  Every live trigger has its own handle, is the one registered under the id it serves,
  and every registered handle is live.
\<close>

definition jobs_inv :: "service \<Rightarrow> bool" where
  "jobs_inv s =
     (distinct (map fst (cron_started s))
      \<and> (\<forall>t \<in> set (cron_started s). fst t < cron_next s \<and> monitoringJobs s (snd t) = Some (fst t))
      \<and> (\<forall>a h. monitoringJobs s a = Some h \<longrightarrow> (h, a) \<in> set (cron_started s)))"

section \<open>Properties\<close>

subsection \<open>Auxiliary facts\<close>

lemma allSettled_dispatched:
  "dispatched (snd (allSettled e s user cs alert w)) = dispatched w @ map (\<lambda>c. (c, ma_id alert)) cs"
proof (induction cs arbitrary: w)
  case Nil
  then show ?case by simp
next
  case (Cons c cs)
  have one: "dispatched (snd (send_on e s user c alert w)) = dispatched w @ [(c, ma_id alert)]"
    by (cases c) (simp_all add: send_on_def sendEmailAlert_def sendSlackAlert_def
        sendTelegramAlert_def sendWebhookAlert_def logger_def Let_def)
  show ?case using Cons.IH [of "snd (send_on e s user c alert w)"] one
    by (simp add: case_prod_beta)
qed


lemma sendAlert_never_raises: "fst (sendAlert e userId alert w) = Inr ()"
  by (simp add: sendAlert_def split: prod.splits sum.splits)

lemma sendAlert_dispatched:
  assumes "\<not> query_fails e Q_notificationSettings" "\<not> query_fails e Q_userById"
    and "find (\<lambda>s. settings_user_id s = userId) (notification_settings w) = Some settings"
    and "find (\<lambda>u. user_id u = userId) (users w) = Some user"
  shows "dispatched (snd (sendAlert e userId alert w)) =
         dispatched w @ map (\<lambda>c. (c, ma_id alert)) (notifications settings)"
  using assms allSettled_dispatched [of e settings user "notifications settings" alert w]
  by (simp add: sendAlert_def sendAlert_try_def getUserNotificationSettings_def logger_def
      case_prod_beta)


lemma truthy_iff: "truthy v = (v \<noteq> None \<and> v \<noteq> Some [])"
  by (simp add: truthy_def split: option.splits)

lemma notifications_fields: "notifications s = enabled_channels s"
  by (simp add: notifications_def truthy_iff)

lemma find_resolve_map:
  "find (\<lambda>a. alert_id a = k)
        (map (\<lambda>a. if alert_id a = i then resolve_row t u a else a) xs) =
   map_option (\<lambda>a. if alert_id a = i then resolve_row t u a else a)
        (find (\<lambda>a. alert_id a = k) xs)"
  by (induction xs) (simp_all add: resolve_row_def)

lemma resolveAlert_users: "users (snd (resolveAlert e i u w)) = users w"
  by (simp add: resolveAlert_def logger_def)

lemma resolution_of_None: "(resolution_of w k = None) = (find (\<lambda>a. alert_id a = k) (alerts w) = None)"
  by (simp add: resolution_of_def split: option.splits)

lemma resolveAlert_rejected:
  assumes "\<not> query_fails e Q_resolveAlert"
    and "resolution_of w i \<noteq> None"
    and "find (\<lambda>x. user_id x = u) (users w) = None"
  shows "resolveAlert e i u w = (Inl db_error, logger LogError ''Failed to resolve alert'' w)"
  using assms by (simp add: resolveAlert_def resolution_of_None)

lemma resolution_after_resolve:
  assumes "\<not> query_fails e Q_resolveAlert"
    and "find (\<lambda>x. user_id x = u) (users w) \<noteq> None"
  shows "resolution_of (snd (resolveAlert e i u w)) k =
           (if k = i then map_option (\<lambda>r. (True, Some (now e), Some u)) (resolution_of w k)
            else resolution_of w k)"
proof (cases "find (\<lambda>a. alert_id a = k) (alerts w)")
  case None
  with assms show ?thesis
    by (auto simp: resolveAlert_def resolution_of_def logger_def find_resolve_map)
next
  case (Some a)
  then have "alert_id a = k" by (auto simp: find_Some_iff)
  with Some assms show ?thesis
    by (auto simp: resolveAlert_def resolution_of_def logger_def find_resolve_map resolve_row_def)
qed

lemma jobs_inv_init: "jobs_inv init_service"
  by (simp add: jobs_inv_def init_service_def)

lemma jobs_inv_count:
  assumes "jobs_inv s"
  shows "jobs_for s a = (if monitoringJobs s a = None then 0 else 1)"
proof (cases "monitoringJobs s a")
  case None
  with assms have "filter (\<lambda>t. snd t = a) (cron_started s) = []"
    by (auto simp: jobs_inv_def filter_empty_conv)
  with None show ?thesis by (simp add: jobs_for_def)
next
  case (Some h)
  from assms have d: "distinct (cron_started s)"
    by (simp add: jobs_inv_def distinct_map)
  from assms Some have mem: "(h, a) \<in> set (cron_started s)"
    by (simp add: jobs_inv_def)
  from assms Some have "filter (\<lambda>t. snd t = a) (cron_started s) = filter (\<lambda>t. t = (h, a)) (cron_started s)"
    by (intro filter_cong) (auto simp: jobs_inv_def)
  moreover have "length (filter (\<lambda>t. t = (h, a)) (cron_started s)) = 1"
  proof -
    have "{x. x = (h, a)} \<inter> set (cron_started s) = {(h, a)}" using mem by auto
    then show ?thesis using d by (simp add: distinct_length_filter)
  qed
  ultimately show ?thesis using Some by (simp add: jobs_for_def)
qed

lemma start_service:
  "fst (snd (startAgentMonitoring e a (s, w))) =
     (if monitoringJobs s a \<noteq> None then s
      else s\<lparr>cron_next := Suc (cron_next s),
             cron_started := cron_started s @ [(cron_next s, a)],
             monitoringJobs := (monitoringJobs s)(a \<mapsto> cron_next s)\<rparr>)"
  by (simp add: startAgentMonitoring_def Let_def split: prod.splits sum.splits)

lemma stop_service:
  "fst (stopAgentMonitoring a (s, w)) =
     (case monitoringJobs s a of
        None \<Rightarrow> s
      | Some h \<Rightarrow> s\<lparr>cron_started := filter (\<lambda>t. fst t \<noteq> h) (cron_started s),
                    monitoringJobs := (monitoringJobs s)(a := None)\<rparr>)"
  by (simp add: stopAgentMonitoring_def split: option.splits)

lemma jobs_inv_start:
  assumes "jobs_inv s"
  shows "jobs_inv (fst (snd (startAgentMonitoring e a (s, w))))"
proof (cases "monitoringJobs s a")
  case None
  let ?h = "cron_next s"
  let ?xs = "cron_started s"
  let ?m = "(monitoringJobs s)(a \<mapsto> ?h)"
  from assms have d: "distinct (map fst ?xs)"
    by (simp add: jobs_inv_def)
  from assms have live: "\<And>t. t \<in> set ?xs \<Longrightarrow> fst t < ?h \<and> monitoringJobs s (snd t) = Some (fst t)"
    by (simp add: jobs_inv_def)
  from assms have reg: "\<And>b k. monitoringJobs s b = Some k \<Longrightarrow> (k, b) \<in> set ?xs"
    by (simp add: jobs_inv_def)
  have fresh: "?h \<notin> fst ` set ?xs"
    using live by fastforce
  have i1: "distinct (map fst (?xs @ [(?h, a)]))"
    using d fresh by simp
  have i2: "fst t < Suc ?h \<and> ?m (snd t) = Some (fst t)" if "t \<in> set (?xs @ [(?h, a)])" for t
  proof (cases "t = (?h, a)")
    case True
    then show ?thesis by simp
  next
    case False
    with that have t: "t \<in> set ?xs" by simp
    from live [OF t] None have "snd t \<noteq> a" by auto
    with live [OF t] show ?thesis by (simp add: less_Suc_eq)
  qed
  have i3: "(k, b) \<in> set (?xs @ [(?h, a)])" if "?m b = Some k" for b k
    using that reg [of b k] by (simp split: if_splits)
  have "jobs_inv (s\<lparr>cron_next := Suc ?h, cron_started := ?xs @ [(?h, a)], monitoringJobs := ?m\<rparr>)"
    unfolding jobs_inv_def using i1 i2 i3 by simp
  then show ?thesis using None by (simp add: start_service)
next
  case (Some h)
  then show ?thesis using assms by (simp add: start_service)
qed

lemma jobs_inv_stop:
  assumes "jobs_inv s"
  shows "jobs_inv (fst (stopAgentMonitoring a (s, w)))"
proof (cases "monitoringJobs s a")
  case None
  then show ?thesis using assms by (simp add: stop_service)
next
  case (Some h)
  let ?xs = "cron_started s"
  let ?ys = "filter (\<lambda>t. fst t \<noteq> h) ?xs"
  let ?m = "(monitoringJobs s)(a := None)"
  from assms have d: "distinct (map fst ?xs)"
    by (simp add: jobs_inv_def)
  from assms have live: "\<And>t. t \<in> set ?xs \<Longrightarrow> fst t < cron_next s \<and> monitoringJobs s (snd t) = Some (fst t)"
    by (simp add: jobs_inv_def)
  from assms have reg: "\<And>b k. monitoringJobs s b = Some k \<Longrightarrow> (k, b) \<in> set ?xs"
    by (simp add: jobs_inv_def)
  have only: "b = a" if "monitoringJobs s b = Some h" for b
  proof -
    have "(h, b) \<in> set ?xs" "(h, a) \<in> set ?xs"
      using that Some by (simp_all add: reg)
    with d show ?thesis by (rule eq_key_imp_eq_value)
  qed
  have i1: "distinct (map fst ?ys)"
    using d by (rule distinct_map_filter)
  have i2: "fst t < cron_next s \<and> ?m (snd t) = Some (fst t)" if "t \<in> set ?ys" for t
  proof -
    from that have t: "t \<in> set ?xs" and nh: "fst t \<noteq> h" by simp_all
    from live [OF t] have l: "fst t < cron_next s" and r: "monitoringJobs s (snd t) = Some (fst t)"
      by simp_all
    have "snd t \<noteq> a"
    proof
      assume "snd t = a"
      with r Some have "fst t = h" by simp
      with nh show False by simp
    qed
    with l r show ?thesis by simp
  qed
  have i3: "(k, b) \<in> set ?ys" if "?m b = Some k" for b k
  proof -
    from that have ba: "b \<noteq> a" and r: "monitoringJobs s b = Some k"
      by (simp_all split: if_splits)
    have "k \<noteq> h"
    proof
      assume "k = h"
      with r have "b = a" by (simp add: only)
      with ba show False by simp
    qed
    with reg [OF r] show ?thesis by simp
  qed
  have "jobs_inv (s\<lparr>cron_started := ?ys, monitoringJobs := ?m\<rparr>)"
    unfolding jobs_inv_def using i1 i2 i3 by simp
  then show ?thesis using Some by (simp add: stop_service)
qed

lemma jobs_inv_manage: "jobs_inv (fst sw) \<Longrightarrow> jobs_inv (fst (manage c sw))"
  by (cases c; cases sw) (simp_all add: jobs_inv_start jobs_inv_stop)

lemma jobs_inv_manage_all: "jobs_inv (fst sw) \<Longrightarrow> jobs_inv (fst (manage_all cs sw))"
  by (induction cs arbitrary: sw) (simp_all add: jobs_inv_manage)

lemma start_registers: "monitoringJobs (fst (snd (startAgentMonitoring e a sw))) a \<noteq> None"
  by (cases sw) (simp add: start_service)

lemma stop_deregisters: "monitoringJobs (fst (stopAgentMonitoring a sw)) a = None"
  by (cases sw) (simp add: stop_service split: option.splits)





lemma system_health_tick_never_raises: "fst (system_health_tick e w) = Inr ()"
  by (simp add: system_health_tick_def split: prod.splits sum.splits)

lemma cleanup_tick_never_raises: "fst (cleanup_tick e w) = Inr ()"
  by (simp add: cleanup_tick_def split: prod.splits sum.splits)

lemma createAlert_gate:
  assumes "ad_severity d = LOW \<or> ad_severity d = MEDIUM"
  shows "dispatched (snd (createAlert e agentId d w)) = dispatched w"
  using assms
  by (auto simp: createAlert_def createAlert_try_def getAgentById_def logger_def emit_def Let_def
      split: option.splits)

lemma createAlert_fanout:
  assumes "ad_severity d = HIGH \<or> ad_severity d = CRITICAL"
    and "\<not> query_fails e Q_getAgentById" "\<not> query_fails e Q_insertAlert"
    and "find (\<lambda>a. agent_id a = agentId) (agents w) = Some agent"
    and "\<not> query_fails e Q_notificationSettings" "\<not> query_fails e Q_userById"
    and "find (\<lambda>s. settings_user_id s = agent_user_id agent) (notification_settings w) = Some settings"
    and "find (\<lambda>u. user_id u = agent_user_id agent) (users w) = Some user"
  shows "dispatched (snd (createAlert e agentId d w)) =
         dispatched w @ map (\<lambda>c. (c, fresh_alert_id e)) (notifications settings)"
proof -
  define w4 where "w4 =
    emit (''user-'' @ agent_user_id agent) ''alert'' (AlertPayload (alert_object e agentId d))
      (emit (''agent-'' @ agentId) ''alert'' (AlertPayload (alert_object e agentId d))
        (w\<lparr>alerts := alerts w @ [inserted_alert e agentId agent d]\<rparr>))"
  have s4: "notification_settings w4 = notification_settings w" "users w4 = users w"
    "dispatched w4 = dispatched w"
    by (simp_all add: w4_def emit_def)
  have fan: "dispatched (snd (sendAlert e (agent_user_id agent) (alert_object e agentId d) w4)) =
      dispatched w @ map (\<lambda>c. (c, fresh_alert_id e)) (notifications settings)"
    using sendAlert_dispatched [of e "agent_user_id agent" w4 settings user "alert_object e agentId d"]
      assms s4 by (simp add: alert_object_def)
  have ok: "fst (sendAlert e (agent_user_id agent) (alert_object e agentId d) w4) = Inr ()"
    by (rule sendAlert_never_raises)
  obtain r w5 where sa: "sendAlert e (agent_user_id agent) (alert_object e agentId d) w4 = (r, w5)"
    by (cases "sendAlert e (agent_user_id agent) (alert_object e agentId d) w4")
  with ok fan have r: "r = Inr ()" and w5: "dispatched w5 =
      dispatched w @ map (\<lambda>c. (c, fresh_alert_id e)) (notifications settings)" by simp_all
  show ?thesis
    using assms(1-4) sa r w5 unfolding createAlert_def createAlert_try_def getAgentById_def
    by (auto simp: Let_def w4_def logger_def)
qed

subsection \<open>The claims\<close>

text \<open>
  C1. For every input (total, active and error counts, average uptime, unresolved alert
  count) the classification is critical when the error count is positive or more than 10
  alerts are unresolved; otherwise warning when the average uptime is below 95 or more
  than 5 alerts are unresolved; otherwise healthy. The rules are tried in that order, the
  boundaries are strict (uptime exactly 95 and 5 unresolved alerts give healthy, 6 give
  warning), and the critical rule wins even when the uptime is below 95.
\<close>

theorem C1_health_classification:
  "determineSystemStatus
      \<lparr>total_agents = t, active_agents = a, error_agents = ec, avg_uptime = Some u\<rparr> n =
     (if 0 < ec \<or> 10 < n then critical
      else if u < 95 \<or> 5 < n then warning
      else healthy)
   \<and> systemStatus (buildSystemHealth
        \<lparr>total_agents = t, active_agents = a, error_agents = ec, avg_uptime = Some u\<rparr> n) =
     (if 0 < ec \<or> 10 < n then critical
      else if u < 95 \<or> 5 < n then warning
      else healthy)
   \<and> determineSystemStatus
        \<lparr>total_agents = t, active_agents = a, error_agents = 0, avg_uptime = Some 95\<rparr> 5 = healthy
   \<and> determineSystemStatus
        \<lparr>total_agents = t, active_agents = a, error_agents = 0, avg_uptime = Some 95\<rparr> 6 = warning
   \<and> determineSystemStatus
        \<lparr>total_agents = t, active_agents = a, error_agents = Suc k, avg_uptime = Some 50\<rparr> 0 = critical
   \<and> determineSystemStatus
        \<lparr>total_agents = t, active_agents = a, error_agents = 0, avg_uptime = Some 50\<rparr> 11 = critical"
  by (simp add: determineSystemStatus_def buildSystemHealth_def ToNumber_def)

theorem C1_health_classification_witness:
  "determineSystemStatus
      \<lparr>total_agents = 10, active_agents = 9, error_agents = 1, avg_uptime = Some 97\<rparr> 3 = critical"
  using C1_health_classification [of 10 9 1 97 3 0] by simp

text \<open>
  C9. With an empty fleet the statistics query averages over no rows, so the average
  uptime is NULL: for every unresolved alert count up to 10 the snapshot is warning, not
  healthy, and its \<open>avgUptime\<close> field is 0.
\<close>

theorem C9_empty_fleet_warning:
  assumes "agents w = []"
    and "unresolved_alerts_query w \<le> 10"
    and "\<not> query_fails e Q_systemStats"
    and "\<not> query_fails e Q_unresolvedAlerts"
  shows "\<exists>h. getSystemHealth e w = (Inr h, w)
           \<and> systemStatus h = warning \<and> systemStatus h \<noteq> healthy
           \<and> avgUptime h = 0 \<and> totalAgents h = 0 \<and> errorAgents h = 0"
  using assms
  by (simp add: getSystemHealth_def buildSystemHealth_def determineSystemStatus_def
      system_stats_query_def sql_avg_def ToNumber_def parseFloat_or_zero_def)

theorem C9_empty_fleet_warning_witness:
  "\<exists>h. getSystemHealth env_ok world_empty = (Inr h, world_empty)
       \<and> systemStatus h = warning \<and> avgUptime h = 0"
proof -
  have a: "agents world_empty = []" "unresolved_alerts_query world_empty \<le> 10"
    by (simp_all add: world_empty_def unresolved_alerts_query_def)
  have q: "\<not> query_fails env_ok Q_systemStats" "\<not> query_fails env_ok Q_unresolvedAlerts"
    by (simp_all add: env_ok_def)
  from C9_empty_fleet_warning [OF a q] show ?thesis by blast
qed

text \<open>
  C2 as stated fails: the \<^verbatim>\<open>UPDATE\<close> of \<^verbatim>\<open>resolveAlert\<close> has no condition on
  \<open>resolved\<close>, so a second call by another user at a later time replaces both fields.
\<close>

theorem C2_counterexample:
  "resolution_of
     (snd (resolveAlert (env_ok\<lparr>now := 200\<rparr>) ''al1'' ''u2''
        (snd (resolveAlert (env_ok\<lparr>now := 100\<rparr>) ''al1'' ''u1'' world_two)))) ''al1''
   \<noteq> resolution_of (snd (resolveAlert (env_ok\<lparr>now := 100\<rparr>) ''al1'' ''u1'' world_two)) ''al1''"
  by (simp add: resolveAlert_def resolution_of_def logger_def resolve_row_def env_ok_def
      world_two_def world_one_def world_empty_def alert_open_def)

text \<open>
  C2 (amended). For every alert id in the table and every resolver that is a user of the
  store, \<^verbatim>\<open>resolveAlert\<close> sets \<open>resolved\<close>, \<open>resolved_at\<close> and \<open>resolved_by\<close>
  unconditionally: after a second call by a user the alert is still resolved and carries
  the time and the resolver of the second call. The fields of the first call stay in
  place under a \<^verbatim>\<open>resolveAlert\<close> on another id, and under a second call whose resolver is
  no user, which the store rejects and the function rethrows.
\<close>

theorem C2_resolveAlert_overwrites:
  assumes "\<not> query_fails e1 Q_resolveAlert" and "\<not> query_fails e2 Q_resolveAlert"
    and "resolution_of w alertId = Some r0"
    and "find (\<lambda>x. user_id x = u1) (users w) \<noteq> None"
    and "find (\<lambda>x. user_id x = u2) (users w) \<noteq> None"
  shows "resolution_of (snd (resolveAlert e1 alertId u1 w)) alertId =
           Some (True, Some (now e1), Some u1)
       \<and> resolution_of (snd (resolveAlert e2 alertId u2 (snd (resolveAlert e1 alertId u1 w)))) alertId =
           Some (True, Some (now e2), Some u2)
       \<and> (other \<noteq> alertId \<longrightarrow>
            resolution_of (snd (resolveAlert e2 other u2 (snd (resolveAlert e1 alertId u1 w)))) alertId =
              Some (True, Some (now e1), Some u1))
       \<and> (find (\<lambda>x. user_id x = u3) (users w) = None \<longrightarrow>
            fst (resolveAlert e2 alertId u3 (snd (resolveAlert e1 alertId u1 w))) = Inl db_error
            \<and> resolution_of (snd (resolveAlert e2 alertId u3 (snd (resolveAlert e1 alertId u1 w)))) alertId =
                Some (True, Some (now e1), Some u1))"
proof -
  let ?w1 = "snd (resolveAlert e1 alertId u1 w)"
  have first: "resolution_of ?w1 alertId = Some (True, Some (now e1), Some u1)"
    using assms(1,3,4) by (simp add: resolution_after_resolve)
  have u2: "find (\<lambda>x. user_id x = u2) (users ?w1) \<noteq> None"
    using assms(5) by (simp add: resolveAlert_users)
  have second: "resolution_of (snd (resolveAlert e2 alertId u2 ?w1)) alertId =
      Some (True, Some (now e2), Some u2)"
    using assms(2) u2 first by (simp add: resolution_after_resolve)
  have third: "other \<noteq> alertId \<longrightarrow>
      resolution_of (snd (resolveAlert e2 other u2 ?w1)) alertId = Some (True, Some (now e1), Some u1)"
    using assms(2) u2 first by (simp add: resolution_after_resolve)
  have fourth: "find (\<lambda>x. user_id x = u3) (users w) = None \<longrightarrow>
      fst (resolveAlert e2 alertId u3 ?w1) = Inl db_error
      \<and> resolution_of (snd (resolveAlert e2 alertId u3 ?w1)) alertId =
          Some (True, Some (now e1), Some u1)"
  proof
    assume "find (\<lambda>x. user_id x = u3) (users w) = None"
    then have n: "find (\<lambda>x. user_id x = u3) (users ?w1) = None"
      by (simp add: resolveAlert_users)
    have ex: "resolution_of ?w1 alertId \<noteq> None" using first by simp
    have "resolveAlert e2 alertId u3 ?w1 =
        (Inl db_error, logger LogError ''Failed to resolve alert'' ?w1)"
      using assms(2) ex n by (rule resolveAlert_rejected)
    then show "fst (resolveAlert e2 alertId u3 ?w1) = Inl db_error
      \<and> resolution_of (snd (resolveAlert e2 alertId u3 ?w1)) alertId =
          Some (True, Some (now e1), Some u1)"
      using first by (simp add: resolution_of_def logger_def)
  qed
  from first second third fourth show ?thesis by blast
qed

theorem C2_resolveAlert_overwrites_witness:
  "resolution_of (snd (resolveAlert (env_ok\<lparr>now := 100\<rparr>) ''al1'' ''u1'' world_two)) ''al1'' =
     Some (True, Some 100, Some ''u1'')
   \<and> resolution_of
       (snd (resolveAlert (env_ok\<lparr>now := 200\<rparr>) ''al1'' ''u2''
          (snd (resolveAlert (env_ok\<lparr>now := 100\<rparr>) ''al1'' ''u1'' world_two)))) ''al1'' =
     Some (True, Some 200, Some ''u2'')
   \<and> fst (resolveAlert (env_ok\<lparr>now := 200\<rparr>) ''al1'' ''u7''
          (snd (resolveAlert (env_ok\<lparr>now := 100\<rparr>) ''al1'' ''u1'' world_two))) = Inl db_error
   \<and> resolution_of
       (snd (resolveAlert (env_ok\<lparr>now := 200\<rparr>) ''al1'' ''u7''
          (snd (resolveAlert (env_ok\<lparr>now := 100\<rparr>) ''al1'' ''u1'' world_two)))) ''al1'' =
     Some (True, Some 100, Some ''u1'')"
proof -
  have q: "\<not> query_fails (env_ok\<lparr>now := 100\<rparr>) Q_resolveAlert"
    "\<not> query_fails (env_ok\<lparr>now := 200\<rparr>) Q_resolveAlert"
    by (simp_all add: env_ok_def)
  have r: "resolution_of world_two ''al1'' = Some (False, None, None)"
    by (simp add: resolution_of_def world_two_def world_one_def world_empty_def alert_open_def)
  have u: "find (\<lambda>x. user_id x = ''u1'') (users world_two) \<noteq> None"
    "find (\<lambda>x. user_id x = ''u2'') (users world_two) \<noteq> None"
    "find (\<lambda>x. user_id x = ''u7'') (users world_two) = None"
    by (simp_all add: world_two_def world_one_def world_empty_def)
  from C2_resolveAlert_overwrites [OF q r u(1) u(2), of "''al2''" "''u7''"] u(3)
  show ?thesis by simp
qed




text \<open>
  C4. The claim: whatever a tick handler raises, also while creating the failure alert
  after a failed health check, is caught and logged at the tick boundary. The callbacks
  of the system snapshot and of the retention sweep do so (the two lemmas above). The
  callback of an agent's job does not: during a database outage in which the agent
  runtime fails too, \<^verbatim>\<open>createAlert\<close> raises inside the \<^verbatim>\<open>catch\<close> of
  \<^verbatim>\<open>performAgentHealthCheck\<close> and the error leaves the callback.
\<close>

theorem C4_agent_tick_error_escapes:
  "fst (agent_monitor_tick env_outage ''a1'' world_one) = Inl db_error"
  by (simp add: agent_monitor_tick_def performAgentHealthCheck_def performAgentHealthCheck_try_def
      executeAgentTask_def createAlert_def createAlert_try_def getAgentById_def env_outage_def
      env_ok_def Let_def)

text \<open>
  C5. For every resource id unknown to the store, \<^verbatim>\<open>createAlert\<close> fails, with
  \<^verbatim>\<open>Agent not found\<close> whenever the lookup query itself succeeds, and has no effect on the
  state: no alert row, no emission, no channel attempt, no cache entry; only an error
  line is logged.
\<close>

theorem C5_createAlert_unknown_agent:
  assumes "find (\<lambda>a. agent_id a = agentId) (agents w) = None"
  shows "(\<exists>err. fst (createAlert e agentId d w) = Inl err)
       \<and> (\<not> query_fails e Q_getAgentById \<longrightarrow>
            createAlert e agentId d w =
              (Inl (Error ''Agent not found''), logger LogError ''Failed to create alert'' w))
       \<and> alerts (snd (createAlert e agentId d w)) = alerts w
       \<and> emitted (snd (createAlert e agentId d w)) = emitted w
       \<and> dispatched (snd (createAlert e agentId d w)) = dispatched w
       \<and> redis_store (snd (createAlert e agentId d w)) = redis_store w
       \<and> (snd (createAlert e agentId d w))\<lparr>logs := logs w\<rparr> = w"
  using assms
  by (simp add: createAlert_def createAlert_try_def getAgentById_def logger_def)

theorem C5_createAlert_unknown_agent_witness:
  "createAlert env_ok ''ghost'' \<lparr>ad_type = ''latency'', ad_severity = CRITICAL, ad_message = ''slow''\<rparr>
     world_one = (Inl (Error ''Agent not found''), logger LogError ''Failed to create alert'' world_one)
   \<and> alerts (snd (createAlert env_ok ''ghost''
        \<lparr>ad_type = ''latency'', ad_severity = CRITICAL, ad_message = ''slow''\<rparr> world_one)) = []
   \<and> dispatched (snd (createAlert env_ok ''ghost''
        \<lparr>ad_type = ''latency'', ad_severity = CRITICAL, ad_message = ''slow''\<rparr> world_one)) = []
   \<and> emitted (snd (createAlert env_ok ''ghost''
        \<lparr>ad_type = ''latency'', ad_severity = CRITICAL, ad_message = ''slow''\<rparr> world_one)) = []"
proof -
  have h: "find (\<lambda>a. agent_id a = ''ghost'') (agents world_one) = None"
    by (simp add: world_one_def world_empty_def agent_a1_def)
  have q: "\<not> query_fails env_ok Q_getAgentById"
    by (simp add: env_ok_def)
  have v: "alerts world_one = []" "dispatched world_one = []" "emitted world_one = []"
    by (simp_all add: world_one_def world_empty_def)
  from C5_createAlert_unknown_agent [OF h, of env_ok
      "\<lparr>ad_type = ''latency'', ad_severity = CRITICAL, ad_message = ''slow''\<rparr>"] q v
  show ?thesis by (simp add: logger_def)
qed



text \<open>
  C7. After any sequence of \<^verbatim>\<open>startAgentMonitoring\<close> and \<^verbatim>\<open>stopAgentMonitoring\<close> calls on
  a fresh service, every id has at most one live job, and exactly one when it is
  registered. Starting an id that is registered returns normally with the service
  unchanged and one warning line. Stopping and starting again leaves exactly one job for
  the id.
\<close>

theorem C7_one_job_per_id:
  "jobs_for (fst (manage_all cs (init_service, w))) a =
     (if monitoringJobs (fst (manage_all cs (init_service, w))) a = None then 0 else 1)
   \<and> jobs_for (fst (manage_all cs (init_service, w))) a \<le> 1
   \<and> (monitoringJobs s a \<noteq> None \<longrightarrow>
        startAgentMonitoring e a (s, w) =
          (Inr (), s, logger Warn ''Agent monitoring already active'' w))
   \<and> jobs_for (fst (manage_all (cs @ [StopAgent a, StartAgent e a]) (init_service, w))) a = 1
   \<and> monitoringJobs (fst (manage_all (cs @ [StopAgent a, StartAgent e a]) (init_service, w))) a \<noteq> None"
proof -
  have reach: "\<And>ds. jobs_inv (fst (manage_all ds (init_service, w)))"
    by (rule jobs_inv_manage_all) (simp add: jobs_inv_init)
  have cnt: "\<And>ds b. jobs_for (fst (manage_all ds (init_service, w))) b =
      (if monitoringJobs (fst (manage_all ds (init_service, w))) b = None then 0 else 1)"
    by (rule jobs_inv_count) (rule reach)
  have app: "\<And>xs ys sw. manage_all (xs @ ys) sw = manage_all ys (manage_all xs sw)"
  proof -
    fix xs ys sw show "manage_all (xs @ ys) sw = manage_all ys (manage_all xs sw)"
      by (induction xs arbitrary: sw) simp_all
  qed
  have reg: "monitoringJobs (fst (manage_all (cs @ [StopAgent a, StartAgent e a]) (init_service, w))) a \<noteq> None"
    by (simp add: app start_registers)
  have dup: "monitoringJobs s a \<noteq> None \<longrightarrow>
        startAgentMonitoring e a (s, w) =
          (Inr (), s, logger Warn ''Agent monitoring already active'' w)"
    by (simp add: startAgentMonitoring_def)
  show ?thesis
    using cnt [of cs a] cnt [of "cs @ [StopAgent a, StartAgent e a]" a] reg dup
    by (simp del: manage_all.simps)
qed

theorem C7_one_job_per_id_witness:
  "jobs_for (fst (manage_all [StartAgent env_ok ''a1'', StartAgent env_ok ''a1'']
       (init_service, world_one))) ''a1'' = 1
   \<and> jobs_for (fst (manage_all [StartAgent env_ok ''a1'', StopAgent ''a1'', StartAgent env_ok ''a1'']
       (init_service, world_one))) ''a1'' = 1
   \<and> jobs_for (fst (manage_all [StartAgent env_ok ''a1'', StopAgent ''a1'']
       (init_service, world_one))) ''a1'' = 0"
proof -
  have s1: "monitoringJobs (fst (manage_all [StartAgent env_ok ''a1'', StartAgent env_ok ''a1'']
       (init_service, world_one))) ''a1'' \<noteq> None"
    by (simp add: start_registers)
  have s2: "monitoringJobs (fst (manage_all [StartAgent env_ok ''a1'', StopAgent ''a1'']
       (init_service, world_one))) ''a1'' = None"
    by (simp add: stop_deregisters)
  from C7_one_job_per_id [of "[StartAgent env_ok ''a1'', StartAgent env_ok ''a1'']" world_one "''a1''" init_service env_ok]
    C7_one_job_per_id [of "[StartAgent env_ok ''a1'']" world_one "''a1''" init_service env_ok]
    C7_one_job_per_id [of "[StartAgent env_ok ''a1'', StopAgent ''a1'']" world_one "''a1''" init_service env_ok]
    s1 s2
  show ?thesis by (simp del: manage_all.simps manage.simps)
qed

text \<open>
  C8 as stated fails: the sweep does not look at the age of an alert. An alert that is
  resolved and was created 8 days ago, but was resolved only yesterday, survives it.
\<close>

theorem C8_counterexample:
  "resolved alert_recent
   \<and> created_at alert_recent = now env_ok - days 8
   \<and> alert_recent \<in> set (alerts (snd (cleanup_tick env_ok (world_one\<lparr>alerts := [alert_recent]\<rparr>))))"
  by (simp add: cleanup_tick_def cleanup_try_def alert_expired_def metric_expired_def logger_def
      Let_def env_ok_def world_one_def world_empty_def alert_recent_def alert_open_def days_def)

text \<open>
  C8 (amended). A retention sweep whose two statements succeed deletes exactly the metric
  samples recorded more than 30 days before now and exactly the alerts that are resolved
  and whose resolution time \<open>resolved_at\<close> is more than 7 days before now: an alert
  resolved 8 days ago is deleted, an alert resolved 6 days ago is kept, and an unresolved
  alert is kept; the time of creation plays no part.
\<close>

theorem C8_retention_sweep:
  assumes "\<not> query_fails e Q_deleteOldMetrics" and "\<not> query_fails e Q_deleteResolvedAlerts"
  shows "fst (cleanup_tick e w) = Inr ()
       \<and> agent_metrics (snd (cleanup_tick e w)) =
           filter (\<lambda>m. \<not> recorded_at m < now e - days 30) (agent_metrics w)
       \<and> alerts (snd (cleanup_tick e w)) =
           filter (\<lambda>a. \<not> (resolved a \<and> (\<exists>r. resolved_at a = Some r \<and> r < now e - days 7)))
             (alerts w)
       \<and> (\<forall>a \<in> set (alerts w).
            (\<not> resolved a \<longrightarrow> a \<in> set (alerts (snd (cleanup_tick e w))))
          \<and> (resolved a \<and> resolved_at a = Some (now e - days 8) \<longrightarrow>
               a \<notin> set (alerts (snd (cleanup_tick e w))))
          \<and> (resolved a \<and> resolved_at a = Some (now e - days 6) \<longrightarrow>
               a \<in> set (alerts (snd (cleanup_tick e w))))
          \<and> (a \<notin> set (alerts (snd (cleanup_tick e w))) \<longleftrightarrow>
               resolved a \<and> (\<exists>r. resolved_at a = Some r \<and> r < now e - days 7)))"
proof -
  have ex: "\<And>a. alert_expired (now e) a =
      (resolved a \<and> (\<exists>r. resolved_at a = Some r \<and> r < now e - days 7))"
    by (simp add: alert_expired_def split: option.splits)
  have run: "cleanup_tick e w =
      (Inr (), logger Info ''Periodic cleanup completed''
         (w\<lparr>agent_metrics := filter (\<lambda>m. \<not> metric_expired (now e) m) (agent_metrics w),
            alerts := filter (\<lambda>a. \<not> alert_expired (now e) a) (alerts w)\<rparr>))"
    using assms by (simp add: cleanup_tick_def cleanup_try_def Let_def)
  have m: "agent_metrics (snd (cleanup_tick e w)) =
      filter (\<lambda>m. \<not> recorded_at m < now e - days 30) (agent_metrics w)"
    by (simp add: run logger_def metric_expired_def)
  have a: "alerts (snd (cleanup_tick e w)) =
      filter (\<lambda>a. \<not> (resolved a \<and> (\<exists>r. resolved_at a = Some r \<and> r < now e - days 7)))
        (alerts w)"
    by (simp add: run logger_def ex)
  have r: "fst (cleanup_tick e w) = Inr ()"
    by (simp add: run)
  have b: "\<forall>a \<in> set (alerts w).
            (\<not> resolved a \<longrightarrow> a \<in> set (alerts (snd (cleanup_tick e w))))
          \<and> (resolved a \<and> resolved_at a = Some (now e - days 8) \<longrightarrow>
               a \<notin> set (alerts (snd (cleanup_tick e w))))
          \<and> (resolved a \<and> resolved_at a = Some (now e - days 6) \<longrightarrow>
               a \<in> set (alerts (snd (cleanup_tick e w))))
          \<and> (a \<notin> set (alerts (snd (cleanup_tick e w))) \<longleftrightarrow>
               resolved a \<and> (\<exists>r. resolved_at a = Some r \<and> r < now e - days 7))"
    unfolding a by (auto simp: days_def)
  from r m a b show ?thesis by blast
qed

theorem C8_retention_sweep_witness:
  "alerts (snd (cleanup_tick env_ok world_sweep)) = [alert_6d, alert_open]
   \<and> map recorded_at (agent_metrics (snd (cleanup_tick env_ok world_sweep))) = [1000000 - days 29]"
proof -
  have q: "\<not> query_fails env_ok Q_deleteOldMetrics" "\<not> query_fails env_ok Q_deleteResolvedAlerts"
    by (simp_all add: env_ok_def)
  have n: "now env_ok = 1000000" by (simp add: env_ok_def)
  from C8_retention_sweep [OF q, of world_sweep] show ?thesis
    by (simp add: n world_sweep_def world_one_def world_empty_def alert_8d_def alert_6d_def
        alert_open_def days_def)
qed

text \<open>
  C10. The fanout has no severity filter: \<^verbatim>\<open>sendAlert\<close> attempts the same channels,
  exactly those that the settings row enables, for an alert of any severity, and so does
  the test notification, whose severity is medium. The gate is in \<^verbatim>\<open>createAlert\<close>: for a
  known agent it runs the fanout for the owner when the severity is high or critical and
  attempts no channel otherwise; for low and medium it attempts none in any state.
\<close>

theorem C10_no_severity_filter_in_fanout:
  "(\<not> query_fails e Q_notificationSettings \<longrightarrow> \<not> query_fails e Q_userById \<longrightarrow>
      find (\<lambda>s. settings_user_id s = userId) (notification_settings w) = Some settings \<longrightarrow>
      find (\<lambda>u. user_id u = userId) (users w) = Some user \<longrightarrow>
        dispatched (snd (sendAlert e userId (alert\<lparr>ma_severity := sev\<rparr>) w)) =
          dispatched w @ map (\<lambda>c. (c, ma_id alert)) (enabled_channels settings)
        \<and> dispatched (snd (sendTestNotification e userId w)) =
          dispatched w @ map (\<lambda>c. (c, ''test-alert'')) (enabled_channels settings)
        \<and> (\<not> query_fails e Q_getAgentById \<longrightarrow> \<not> query_fails e Q_insertAlert \<longrightarrow>
             find (\<lambda>a. agent_id a = agentId) (agents w) = Some agent \<longrightarrow>
             agent_user_id agent = userId \<longrightarrow>
               dispatched (snd (createAlert e agentId d w)) =
                 (if ad_severity d = HIGH \<or> ad_severity d = CRITICAL
                  then dispatched w @ map (\<lambda>c. (c, fresh_alert_id e)) (enabled_channels settings)
                  else dispatched w)))
   \<and> (ad_severity d = LOW \<or> ad_severity d = MEDIUM \<longrightarrow>
        dispatched (snd (createAlert e agentId d w)) = dispatched w)"
proof -
  have g: "dispatched (snd (createAlert e agentId d w)) = dispatched w"
    if "ad_severity d = LOW \<or> ad_severity d = MEDIUM"
    using that by (rule createAlert_gate)
  have main: "dispatched (snd (sendAlert e userId (alert\<lparr>ma_severity := sev\<rparr>) w)) =
          dispatched w @ map (\<lambda>c. (c, ma_id alert)) (enabled_channels settings)
        \<and> dispatched (snd (sendTestNotification e userId w)) =
          dispatched w @ map (\<lambda>c. (c, ''test-alert'')) (enabled_channels settings)
        \<and> (\<not> query_fails e Q_getAgentById \<longrightarrow> \<not> query_fails e Q_insertAlert \<longrightarrow>
             find (\<lambda>a. agent_id a = agentId) (agents w) = Some agent \<longrightarrow>
             agent_user_id agent = userId \<longrightarrow>
               dispatched (snd (createAlert e agentId d w)) =
                 (if ad_severity d = HIGH \<or> ad_severity d = CRITICAL
                  then dispatched w @ map (\<lambda>c. (c, fresh_alert_id e)) (enabled_channels settings)
                  else dispatched w))"
    if h: "\<not> query_fails e Q_notificationSettings" "\<not> query_fails e Q_userById"
      "find (\<lambda>s. settings_user_id s = userId) (notification_settings w) = Some settings"
      "find (\<lambda>u. user_id u = userId) (users w) = Some user"
  proof -
    have s1: "dispatched (snd (sendAlert e userId (alert\<lparr>ma_severity := sev\<rparr>) w)) =
        dispatched w @ map (\<lambda>c. (c, ma_id alert)) (enabled_channels settings)"
      using sendAlert_dispatched [OF h, of "alert\<lparr>ma_severity := sev\<rparr>"]
      by (simp add: notifications_fields)
    have s2: "dispatched (snd (sendTestNotification e userId w)) =
        dispatched w @ map (\<lambda>c. (c, ''test-alert'')) (enabled_channels settings)"
      unfolding sendTestNotification_def sendAlert_dispatched [OF h]
      by (simp add: notifications_fields)
    have s3: "dispatched (snd (createAlert e agentId d w)) =
        (if ad_severity d = HIGH \<or> ad_severity d = CRITICAL
         then dispatched w @ map (\<lambda>c. (c, fresh_alert_id e)) (enabled_channels settings)
         else dispatched w)"
      if k: "\<not> query_fails e Q_getAgentById" "\<not> query_fails e Q_insertAlert"
        "find (\<lambda>a. agent_id a = agentId) (agents w) = Some agent" "agent_user_id agent = userId"
    proof (cases "ad_severity d = HIGH \<or> ad_severity d = CRITICAL")
      case True
      from h(3,4) k(4) have f:
        "find (\<lambda>s. settings_user_id s = agent_user_id agent) (notification_settings w) = Some settings"
        "find (\<lambda>u. user_id u = agent_user_id agent) (users w) = Some user"
        by simp_all
      from createAlert_fanout [OF True k(1) k(2) k(3) h(1) h(2) f] True
      show ?thesis by (simp add: notifications_fields)
    next
      case False
      then have "ad_severity d = LOW \<or> ad_severity d = MEDIUM"
        by (cases "ad_severity d") simp_all
      from g [OF this] False show ?thesis by simp
    qed
    from s1 s2 s3 show ?thesis by blast
  qed
  from g main show ?thesis by blast
qed

theorem C10_no_severity_filter_in_fanout_witness:
  "dispatched (snd (sendAlert env_ok ''u1'' (alert_x\<lparr>ma_severity := LOW\<rparr>) world_two)) =
     [(Email, ''alert-1''), (Slack, ''alert-1'')]
   \<and> dispatched (snd (sendTestNotification env_ok ''u1'' world_two)) =
     [(Email, ''test-alert''), (Slack, ''test-alert'')]
   \<and> dispatched (snd (createAlert env_ok ''a1''
        \<lparr>ad_type = ''latency'', ad_severity = MEDIUM, ad_message = ''slow''\<rparr> world_two)) = []
   \<and> dispatched (snd (createAlert env_ok ''a1''
        \<lparr>ad_type = ''latency'', ad_severity = CRITICAL, ad_message = ''slow''\<rparr> world_two)) =
     [(Email, ''alert-9''), (Slack, ''alert-9'')]"
proof -
  have q: "\<not> query_fails env_ok Q_notificationSettings" "\<not> query_fails env_ok Q_userById"
    "\<not> query_fails env_ok Q_getAgentById" "\<not> query_fails env_ok Q_insertAlert"
    "fresh_alert_id env_ok = ''alert-9''"
    by (simp_all add: env_ok_def)
  have f: "find (\<lambda>s. settings_user_id s = ''u1'') (notification_settings world_two) = Some settings_u1"
    "find (\<lambda>u. user_id u = ''u1'') (users world_two) = Some \<lparr>user_id = ''u1'', email = ''u1@example.org''\<rparr>"
    "find (\<lambda>a. agent_id a = ''a1'') (agents world_two) = Some agent_a1"
    "agent_user_id agent_a1 = ''u1''"
    by (simp_all add: world_two_def world_one_def world_empty_def settings_u1_def agent_a1_def)
  have v: "dispatched world_two = []" "enabled_channels settings_u1 = [Email, Slack]"
    "ma_id alert_x = ''alert-1''"
    by (simp_all add: world_two_def world_one_def world_empty_def settings_u1_def alert_x_def)
  from C10_no_severity_filter_in_fanout [where e = env_ok and userId = "''u1''" and w = world_two
      and settings = settings_u1 and user = "\<lparr>user_id = ''u1'', email = ''u1@example.org''\<rparr>"
      and alert = alert_x and sev = LOW and agentId = "''a1''" and agent = agent_a1
      and d = "\<lparr>ad_type = ''latency'', ad_severity = MEDIUM, ad_message = ''slow''\<rparr>"]
    C10_no_severity_filter_in_fanout [where e = env_ok and userId = "''u1''" and w = world_two
      and settings = settings_u1 and user = "\<lparr>user_id = ''u1'', email = ''u1@example.org''\<rparr>"
      and alert = alert_x and sev = LOW and agentId = "''a1''" and agent = agent_a1
      and d = "\<lparr>ad_type = ''latency'', ad_severity = CRITICAL, ad_message = ''slow''\<rparr>"]
    q f v(1) v(3)
  show ?thesis by (simp add: settings_u1_def)
qed

end
